theory Spec2Isabelle
  imports Main "HOL-Library.Log_Nat"
begin

section \<open>JavaScript strings\<close>

text \<open>
  A JavaScript string is a sequence of UTF-16 code units. The model works on
  \<^typ>\<open>string\<close>, that is on the code units below 256 (ASCII and Latin-1), which covers
  the quote pages and lookup keys the program handles. \<open>null\<close> and \<open>undefined\<close> are
  \<^term>\<open>None\<close>.
\<close>

definition isWhiteSpace :: "char \<Rightarrow> bool" where
  \<comment> \<open>WhiteSpace and LineTerminator of ECMAScript (what \<open>trim\<close> removes and \<open>\s\<close>
      matches), among the code units below 256: TAB, LF, VT, FF, CR, SP, NBSP.\<close>
  "isWhiteSpace c = (c \<in> set [CHR 0x09, CHR 0x0A, CHR 0x0B, CHR 0x0C, CHR 0x0D, CHR 0x20, CHR 0xA0])"

definition trim :: "string \<Rightarrow> string" where
  \<comment> \<open>\<open>String.prototype.trim\<close>\<close>
  "trim s = rev (dropWhile isWhiteSpace (rev (dropWhile isWhiteSpace s)))"

definition toLowerCaseChar :: "char \<Rightarrow> char" where
  \<comment> \<open>A-Z and the Latin-1 capitals (0xC0-0xDE without the multiplication sign 0xD7)\<close>
  "toLowerCaseChar c =
     (let n = (of_char c :: int)
      in if (65 \<le> n \<and> n \<le> 90) \<or> (192 \<le> n \<and> n \<le> 222 \<and> n \<noteq> 215) then char_of (n + 32) else c)"

definition toLowerCase :: "string \<Rightarrow> string" where
  "toLowerCase s = map toLowerCaseChar s"

definition startsWith :: "string \<Rightarrow> string \<Rightarrow> bool" where
  "startsWith t p = (take (length p) t = p)"

definition endsWith :: "string \<Rightarrow> string \<Rightarrow> bool" where
  "endsWith t p = (length p \<le> length t \<and> drop (length t - length p) t = p)"

definition slice :: "string \<Rightarrow> int \<Rightarrow> int \<Rightarrow> string" where
  \<comment> \<open>\<open>String.prototype.slice(start, end)\<close>: a negative index counts from the end,
      both are clamped to the string, and an empty range gives the empty string.\<close>
  "slice t start end =
     (let len = int (length t);
          from = (if start < 0 then max (len + start) 0 else min start len);
          to = (if end < 0 then max (len + end) 0 else min end len)
      in take (nat (to - from)) (drop (nat from) t))"

section \<open>JavaScript numbers\<close>

text \<open>
  A Number is an IEEE 754 binary64 value. The model keeps a finite value as the
  rational it denotes, and rounds every exact result (the value of a numeric literal, a
  product) to the nearest binary64 value, ties to even, with gradual underflow and
  overflow to infinity. The sign of zero is not kept: \<open>-0\<close> and \<open>+0\<close> are both
  \<^term>\<open>0::rat\<close>.
\<close>

datatype jsnum = Fin rat | PosInf | NegInf | NaN

definition ilog2 :: "rat \<Rightarrow> int" where
  \<comment> \<open>for \<open>0 < r\<close>: the \<open>e\<close> with \<open>2^e \<le> r < 2^(e+1)\<close>\<close>
  "ilog2 r =
     (let (a, b) = quotient_of r;
          e = bitlen a - bitlen b
      in if r < 2 powi e then e - 1 else e)"

definition roundTiesToEven :: "rat \<Rightarrow> int" where
  "roundTiesToEven x =
     (let f = \<lfloor>x\<rfloor>; d = x - of_int f
      in if d < 1 / 2 then f else if 1 / 2 < d then f + 1 else if even f then f else f + 1)"

definition binary64 :: "rat \<Rightarrow> jsnum" where
  \<comment> \<open>rounding of an exact value: a significand of 53 bits at the exponent \<open>e\<close> of the
      value (at least -1022, below which the spacing stays that of the subnormals);
      the result is infinite when it would need an exponent above 1023\<close>
  "binary64 r =
     (if r = 0 then Fin 0
      else let a = \<bar>r\<bar>;
               e = max (ilog2 a) (- 1022);
               u = 2 powi (e - 52);
               m = roundTiesToEven (a / u)
           in if 1023 < e \<or> (e = 1023 \<and> 2 ^ 53 \<le> m) then (if r < 0 then NegInf else PosInf)
              else Fin (if r < 0 then - (of_int m * u) else of_int m * u))"

fun negate :: "jsnum \<Rightarrow> jsnum" where
  "negate (Fin r) = Fin (- r)"
| "negate PosInf = NegInf"
| "negate NegInf = PosInf"
| "negate NaN = NaN"

subsection \<open>\<open>Number(string)\<close>: the StringNumericLiteral grammar\<close>

definition isDigit :: "char \<Rightarrow> bool" where
  "isDigit c = (c \<in> set ''0123456789'')"

definition digitVal :: "char \<Rightarrow> int" where
  "digitVal c =
     (let n = (of_char c :: int)
      in if 48 \<le> n \<and> n \<le> 57 then n - 48
         else if 97 \<le> n \<and> n \<le> 102 then n - 87
         else if 65 \<le> n \<and> n \<le> 70 then n - 55
         else 0)"

definition digitsVal :: "int \<Rightarrow> string \<Rightarrow> int" where
  "digitsVal b ds = foldl (\<lambda>a c. a * b + digitVal c) 0 ds"

definition exponentPart :: "string \<Rightarrow> int option" where
  \<comment> \<open>the rest of a decimal literal: nothing, or \<open>[eE][+-]?\<close> and at least one digit\<close>
  "exponentPart s =
     (case s of
        [] \<Rightarrow> Some 0
      | c # r \<Rightarrow>
          if c \<in> set ''eE'' then
            (let (sg, ds) = (case r of
                               [] \<Rightarrow> (1, r)
                             | d # r' \<Rightarrow> if d = CHR ''-'' then (- 1, r')
                                        else if d = CHR ''+'' then (1, r') else (1, r))
             in if ds \<noteq> [] \<and> list_all isDigit ds then Some (sg * digitsVal 10 ds) else None)
          else None)"

definition strUnsignedDecimalLiteral :: "string \<Rightarrow> jsnum" where
  \<comment> \<open>\<open>Infinity\<close>, \<open>digits . digits? exp?\<close>, \<open>. digits exp?\<close> or \<open>digits exp?\<close>\<close>
  "strUnsignedDecimalLiteral s =
     (if s = ''Infinity'' then PosInf
      else let ip = takeWhile isDigit s;
               r1 = dropWhile isDigit s;
               (fp, r2) = (case r1 of
                             [] \<Rightarrow> ([], [])
                           | c # r \<Rightarrow> if c = CHR ''.'' then (takeWhile isDigit r, dropWhile isDigit r)
                                      else ([], r1))
           in if ip = [] \<and> fp = [] then NaN
              else (case exponentPart r2 of
                      None \<Rightarrow> NaN
                    | Some e \<Rightarrow>
                        binary64 (of_int (digitsVal 10 (ip @ fp)) * 10 powi (e - int (length fp)))))"

definition strDecimalLiteral :: "string \<Rightarrow> jsnum" where
  "strDecimalLiteral s =
     (case s of
        [] \<Rightarrow> NaN
      | c # r \<Rightarrow> if c = CHR ''+'' then strUnsignedDecimalLiteral r
                 else if c = CHR ''-'' then negate (strUnsignedDecimalLiteral r)
                 else strUnsignedDecimalLiteral s)"

definition nonDecimalIntegerLiteral :: "string \<Rightarrow> int option" where
  \<comment> \<open>\<open>0x\<close>, \<open>0o\<close>, \<open>0b\<close> (either case) and at least one digit of the base; no sign\<close>
  "nonDecimalIntegerLiteral s =
     (case s of
        a # b # ds \<Rightarrow>
          if a = CHR ''0'' \<and> ds \<noteq> [] then
            (if b \<in> set ''xX'' \<and> list_all (\<lambda>c. c \<in> set ''0123456789abcdefABCDEF'') ds
               then Some (digitsVal 16 ds)
             else if b \<in> set ''oO'' \<and> list_all (\<lambda>c. c \<in> set ''01234567'') ds
               then Some (digitsVal 8 ds)
             else if b \<in> set ''bB'' \<and> list_all (\<lambda>c. c \<in> set ''01'') ds
               then Some (digitsVal 2 ds)
             else None)
          else None
      | _ \<Rightarrow> None)"

definition Number :: "string \<Rightarrow> jsnum" where
  \<comment> \<open>StringToNumber: white space around the literal is dropped, the empty string is 0,
      and a string outside the grammar is NaN\<close>
  "Number s =
     (let t = trim s
      in if t = [] then Fin 0
         else (case nonDecimalIntegerLiteral t of
                 Some n \<Rightarrow> binary64 (of_int n)
               | None \<Rightarrow> strDecimalLiteral t))"

section \<open>\<open>src/stooq/parse.js\<close>: the value normalizer\<close>

definition kmMatch :: "string \<Rightarrow> (string \<times> char) option" where
  \<comment> \<open>\<open>t.match(/^([+-]?\d+(?:\.\d+)?)([kKmMgGbB])$/)\<close>: the two groups. The digits are
      taken greedily; giving one back never helps, since a digit is neither the dot nor
      a suffix letter.\<close>
  "kmMatch t =
     (let (sg, r0) = (case t of
                        [] \<Rightarrow> ([], t)
                      | c # r \<Rightarrow> if c \<in> set ''+-'' then ([c], r) else ([], t));
          ip = takeWhile isDigit r0;
          r1 = dropWhile isDigit r0;
          (fp, r2) = (case r1 of
                        [] \<Rightarrow> ([], r1)
                      | c # r \<Rightarrow> if c = CHR ''.'' \<and> takeWhile isDigit r \<noteq> []
                                 then (c # takeWhile isDigit r, dropWhile isDigit r)
                                 else ([], r1))
      in if ip = [] then None
         else (case r2 of
                 [u] \<Rightarrow> if u \<in> set ''kKmMgGbB'' then Some (sg @ ip @ fp, u) else None
               | _ \<Rightarrow> None))"

definition parseNumberLoose :: "string option \<Rightarrow> jsnum option" where
  "parseNumberLoose s =
     (case s of
        None \<Rightarrow> None
      | Some x \<Rightarrow>
          let t = trim x
          in if t = [] then None
             else (case kmMatch t of
                     Some (num, u) \<Rightarrow>
                       let n = Number num;
                           unit = toLowerCase [u];
                           mult = (if unit = ''k'' then 1000 else if unit = ''m'' then 1000000
                                   else 1000000000)
                       in (case n of Fin v \<Rightarrow> Some (binary64 (v * mult)) | _ \<Rightarrow> None)
                   | None \<Rightarrow>
                       let normalized = filter (\<lambda>c. \<not> (c = CHR '','' \<or> isWhiteSpace c)) t;
                           n = Number normalized
                       in (case n of Fin v \<Rightarrow> Some n | _ \<Rightarrow> None)))"

definition parsePctLoose :: "string option \<Rightarrow> jsnum option" where
  "parsePctLoose s =
     (case s of
        None \<Rightarrow> None
      | Some x \<Rightarrow>
          let t = trim x
          in if t = [] then None
             else let t1 = (if startsWith t ''('' \<and> endsWith t '')'' then slice t 1 (- 1) else t);
                      t2 = (if endsWith t1 ''%'' then slice t1 0 (- 1) else t1)
                  in parseNumberLoose (Some t2))"

section \<open>\<open>src/stooq/parse.js\<close>: the field extractor\<close>

definition escapeRegExp :: "string \<Rightarrow> string" where
  \<comment> \<open>\<open>String(s).replace(/[.*+?^${}()|[\]\\]/g, "\\$&")\<close>: a backslash before each of
      the fourteen syntax characters of a pattern\<close>
  "escapeRegExp s =
     concat (map (\<lambda>c. if c \<in> set (''.*+?^${}()|[]'' @ [CHR 0x5C]) then [CHR 0x5C, c] else [c]) s)"

fun patternChars :: "string \<Rightarrow> string" where
  \<comment> \<open>the characters a pattern source denotes when, as in the output of
      \<^const>\<open>escapeRegExp\<close>, every syntax character stands behind a backslash: an escaped
      character stands for itself, and so does any other character\<close>
  "patternChars [] = []"
| "patternChars [c] = [c]"
| "patternChars (c # d # r) = (if c = CHR 0x5C then d # patternChars r else c # patternChars (d # r))"

definition canonicalize :: "char \<Rightarrow> char" where
  \<comment> \<open>the comparison form of a code unit under the \<open>i\<close> flag (no \<open>u\<close> flag): its upper
      case. Below 256 that moves a-z and the Latin-1 small letters 0xE0-0xFE (without the
      division sign 0xF7); the upper cases of 0xB5 and 0xFF lie above 255 and are shared
      with no other code unit below 256, and 0xDF has none of one code unit.\<close>
  "canonicalize c =
     (let n = (of_char c :: int)
      in if (97 \<le> n \<and> n \<le> 122) \<or> (224 \<le> n \<and> n \<le> 254 \<and> n \<noteq> 247) then char_of (n - 32) else c)"

fun matchLiteral :: "string \<Rightarrow> string \<Rightarrow> string option" where
  \<comment> \<open>a run of pattern characters at the front of the text, under the \<open>i\<close> flag; the
      result is the text after it\<close>
  "matchLiteral [] s = Some s"
| "matchLiteral (k # ks) [] = None"
| "matchLiteral (k # ks) (c # cs) =
     (if canonicalize k = canonicalize c then matchLiteral ks cs else None)"

definition isWordChar :: "char \<Rightarrow> bool" where
  \<comment> \<open>\<open>[A-Za-z0-9_]\<close>\<close>
  "isWordChar c =
     (let n = (of_char c :: int)
      in (97 \<le> n \<and> n \<le> 122) \<or> (65 \<le> n \<and> n \<le> 90) \<or> (48 \<le> n \<and> n \<le> 57) \<or> n = 95)"

definition atWordBoundary :: "char option \<Rightarrow> string \<Rightarrow> bool" where
  \<comment> \<open>\<open>\b\<close>: exactly one of the code unit before the position and the one at it is a
      word character (the ends of the text count as no word character)\<close>
  "atWordBoundary prev s =
     ((case prev of None \<Rightarrow> False | Some c \<Rightarrow> isWordChar c)
        \<noteq> (case s of [] \<Rightarrow> False | c # _ \<Rightarrow> isWordChar c))"

definition optionalQuote :: "(string \<Rightarrow> 'a option) \<Rightarrow> string \<Rightarrow> 'a option" where
  \<comment> \<open>\<open>["']?\<close> before the rest \<open>k\<close> of the pattern: greedy, so a quote is taken first,
      and given back when the rest fails after it\<close>
  "optionalQuote k s =
     (case (case s of
              [] \<Rightarrow> None
            | c # r \<Rightarrow> if c = CHR 0x22 \<or> c = CHR 0x27 then k r else None) of
        Some m \<Rightarrow> Some m
      | None \<Rightarrow> k s)"

definition matchTail :: "string \<Rightarrow> (string \<times> string) option" where
  \<comment> \<open>\<open>[^>]*>([^<]*)<\<close>: the captured group and the text after the match. Each star
      runs to the first character its class excludes, which is the one the pattern
      requires next; a shorter run would put a character of the run there, so giving
      characters back never leads to a match.\<close>
  "matchTail s =
     (case dropWhile (\<lambda>c. c \<noteq> CHR ''>'') s of
        [] \<Rightarrow> None
      | _ # s2 \<Rightarrow>
          (case dropWhile (\<lambda>c. c \<noteq> CHR ''<'') s2 of
             [] \<Rightarrow> None
           | _ # s4 \<Rightarrow> Some (takeWhile (\<lambda>c. c \<noteq> CHR ''<'') s2, s4)))"

definition matchAt :: "string \<Rightarrow> char option \<Rightarrow> string \<Rightarrow> (string \<times> string) option" where
  \<comment> \<open>the pattern \<open>\bid=(?:["']?KEY["']?)[^>]*>([^<]*)<\<close> at one position of the text:
      \<open>prev\<close> is the code unit before the position, \<open>s\<close> the text from it on\<close>
  "matchAt idChars prev s =
     (if atWordBoundary prev s then
        (case matchLiteral ''id='' s of
           None \<Rightarrow> None
         | Some r \<Rightarrow>
             optionalQuote
               (\<lambda>r1. case matchLiteral idChars r1 of
                        None \<Rightarrow> None
                      | Some r2 \<Rightarrow> optionalQuote matchTail r2) r)
      else None)"

fun exec :: "string \<Rightarrow> char option \<Rightarrow> string \<Rightarrow> (string \<times> string) option" where
  \<comment> \<open>\<open>re.exec(html)\<close> of a global pattern: the leftmost match at or after
      \<open>lastIndex\<close>. The text from \<open>lastIndex\<close> on and the code unit before it stand for
      \<open>lastIndex\<close>; the result is the group and the text from the new \<open>lastIndex\<close> on.\<close>
  "exec idChars prev [] = matchAt idChars prev []"
| "exec idChars prev (c # cs) =
     (case matchAt idChars prev (c # cs) of
        Some m \<Rightarrow> Some m
      | None \<Rightarrow> exec idChars (Some c) cs)"

lemma matchLiteral_length: "matchLiteral ks s = Some r \<Longrightarrow> length r + length ks = length s"
  by (induction ks s rule: matchLiteral.induct) (auto split: if_splits)

lemma matchTail_length: "matchTail s = Some (m, r) \<Longrightarrow> length r < length s"
proof -
  assume a: "matchTail s = Some (m, r)"
  obtain x s2 where s2: "dropWhile (\<lambda>c. c \<noteq> CHR ''>'') s = x # s2"
    using a by (auto simp: matchTail_def split: list.splits)
  obtain y where s4: "dropWhile (\<lambda>c. c \<noteq> CHR ''<'') s2 = y # r"
    using a s2 by (auto simp: matchTail_def split: list.splits)
  have "length (x # s2) \<le> length s"
    unfolding s2 [symmetric] by (rule length_dropWhile_le)
  moreover have "length (y # r) \<le> length s2"
    unfolding s4 [symmetric] by (rule length_dropWhile_le)
  ultimately show ?thesis by simp
qed

lemma optionalQuote_length:
  assumes "optionalQuote k s = Some (m, r)"
    and "\<And>t m r. k t = Some (m, r) \<Longrightarrow> length r \<le> length t"
  shows "length r \<le> length s"
proof (cases "k s = Some (m, r)")
  case True
  then show ?thesis using assms(2) by blast
next
  case False
  then obtain c t where "s = c # t" "k t = Some (m, r)"
    using assms(1) by (auto simp: optionalQuote_def split: list.splits if_splits option.splits)
  then show ?thesis using assms(2) [of t m r] by simp
qed

lemma matchAt_length:
  assumes "matchAt idChars prev s = Some (m, r)"
  shows "length r < length s"
proof -
  from assms obtain s1 where s1: "matchLiteral ''id='' s = Some s1"
    and o1: "optionalQuote
               (\<lambda>r1. case matchLiteral idChars r1 of
                        None \<Rightarrow> None
                      | Some r2 \<Rightarrow> optionalQuote matchTail r2) s1 = Some (m, r)"
    by (auto simp: matchAt_def split: if_splits option.splits)
  have inner: "length r' \<le> length t"
    if "(case matchLiteral idChars t of None \<Rightarrow> None | Some r2 \<Rightarrow> optionalQuote matchTail r2)
          = Some (m', r')" for t m' r'
  proof -
    from that obtain r2 where r2: "matchLiteral idChars t = Some r2"
      and o2: "optionalQuote matchTail r2 = Some (m', r')"
      by (auto split: option.splits)
    have "length r' \<le> length r2"
      using o2 by (rule optionalQuote_length) (auto dest: matchTail_length)
    then show ?thesis using matchLiteral_length [OF r2] by simp
  qed
  have "length r \<le> length s1"
    using o1 by (rule optionalQuote_length) (rule inner)
  then show ?thesis using matchLiteral_length [OF s1] by simp
qed

lemma exec_length: "exec idChars prev s = Some (m, r) \<Longrightarrow> length r < length s"
proof (induction s arbitrary: prev)
  case Nil
  then show ?case by (auto dest: matchAt_length)
next
  case (Cons c cs)
  show ?case
  proof (cases "matchAt idChars prev (c # cs)")
    case None
    then have "exec idChars (Some c) cs = Some (m, r)" using Cons.prems by simp
    then show ?thesis using Cons.IH by fastforce
  next
    case (Some a)
    then show ?thesis using Cons.prems by (auto dest: matchAt_length)
  qed
qed

function lastMatch :: "string \<Rightarrow> char option \<Rightarrow> string \<Rightarrow> string option \<Rightarrow> string option" where
  \<comment> \<open>\<open>while ((m = re.exec(html)) !== null) last = m[1]\<close>; a match ends with its \<open><\<close>,
      which is then the code unit before the new \<open>lastIndex\<close>\<close>
  "lastMatch idChars prev s lastv =
     (case exec idChars prev s of
        None \<Rightarrow> lastv
      | Some (m1, rest) \<Rightarrow> lastMatch idChars (Some (CHR ''<'')) rest (Some m1))"
  by pat_completeness auto
termination
  by (relation "measure (\<lambda>(idChars, prev, s, lastv). length s)") (auto dest: exec_length)

declare lastMatch.simps [simp del]

definition extractTextById :: "string \<Rightarrow> string \<Rightarrow> string option" where
  "extractTextById html id0 =
     (let idEsc = escapeRegExp id0;
          lastv = lastMatch (patternChars idEsc) None html None
      in case lastv of
           None \<Rightarrow> None
         | Some l \<Rightarrow> let v = trim l in if v = [] then Some [] else Some v)"

section \<open>\<open>src/stooq/parse.js\<close>: the quote assembler and the validator\<close>

function decimal :: "nat \<Rightarrow> string" where
  \<comment> \<open>a non-negative integer in a template literal\<close>
  "decimal n = (if n < 10 then [char_of (48 + n)] else decimal (n div 10) @ [char_of (48 + n mod 10)])"
  by pat_completeness auto
termination
  by (relation "measure id") auto

declare decimal.simps [simp del]

text \<open>
  An object built key by key (\<open>raw\<close>, \<open>ids\<close>) is an association list in insertion order.
  Reading a key that is absent gives \<open>undefined\<close>, which the program never tells from
  \<open>null\<close>: both are \<^term>\<open>None\<close>.
\<close>

type_synonym fields = "(string \<times> string option) list"

definition getField :: "fields \<Rightarrow> string \<Rightarrow> string option" where
  "getField r k = (case map_of r k of None \<Rightarrow> None | Some v \<Rightarrow> v)"

record quote =
  symbol :: string
  last_val :: "jsnum option"
  date :: "string option"
  time :: "string option"
  updated_at :: "string option"
  change :: "jsnum option"
  change_pct :: "jsnum option"
  high :: "jsnum option"
  low :: "jsnum option"
  open_val :: "jsnum option"
  prev :: "jsnum option"
  volume :: "jsnum option"
  turnover :: "jsnum option"
  raw :: fields

definition truthy :: "string option \<Rightarrow> bool" where
  \<comment> \<open>a string or \<open>null\<close> in a condition: \<open>null\<close> and the empty string are falsy\<close>
  "truthy v = (case v of None \<Rightarrow> False | Some x \<Rightarrow> x \<noteq> [])"

definition orNull :: "string option \<Rightarrow> string option" where
  \<comment> \<open>\<open>v || null\<close>\<close>
  "orNull v = (if truthy v then v else None)"

definition updatedAt :: "string option \<Rightarrow> string option \<Rightarrow> string option" where
  \<comment> \<open>\<open>d && t ? `${d} ${t}` : null\<close>\<close>
  "updatedAt d t = (if truthy d \<and> truthy t then Some (the d @ '' '' @ the t) else None)"

definition lastIdCandidates :: "string \<Rightarrow> string list" where
  "lastIdCandidates sym0 =
     map (\<lambda>d. ''aq_'' @ sym0 @ ''_c'' @ decimal d @ ''|3'') [2, 0, 3, 1, 4, 5, 6, 7, 8, 9]"

fun findLast :: "string \<Rightarrow> string list \<Rightarrow> string option \<times> string option" where
  \<comment> \<open>the loop over the candidates with its \<open>break\<close>: \<open>(lastId, lastRaw)\<close>\<close>
  "findLast html [] = (None, None)"
| "findLast html (id0 # rest) =
     (case extractTextById html id0 of
        Some v \<Rightarrow> (Some id0, Some v)
      | None \<Rightarrow> findLast html rest)"

definition ids :: "string \<Rightarrow> (string \<times> string) list" where
  "ids sym0 =
     [(''date'', ''aq_'' @ sym0 @ ''_d2''),
      (''time'', ''aq_'' @ sym0 @ ''_t1''),
      (''change'', ''aq_'' @ sym0 @ ''_m2''),
      (''change_pct'', ''aq_'' @ sym0 @ ''_m3''),
      (''high'', ''aq_'' @ sym0 @ ''_h''),
      (''low'', ''aq_'' @ sym0 @ ''_l''),
      (''open'', ''aq_'' @ sym0 @ ''_o''),
      (''prev'', ''aq_'' @ sym0 @ ''_p''),
      (''volume'', ''aq_'' @ sym0 @ ''_v2''),
      (''turnover'', ''aq_'' @ sym0 @ ''_r2'')]"

definition parseQuoteHtml :: "string \<Rightarrow> string \<Rightarrow> quote" where
  "parseQuoteHtml html symbol0 =
     (let sym = toLowerCase symbol0;
          (lastId, lastRaw) = findLast html (lastIdCandidates sym);
          raw0 = [(''last'', lastRaw), (''last_id'', lastId)]
                   @ map (\<lambda>(k, id0). (k, extractTextById html id0)) (ids sym)
      in \<lparr> symbol = sym,
           last_val = parseNumberLoose (getField raw0 ''last''),
           date = orNull (getField raw0 ''date''),
           time = orNull (getField raw0 ''time''),
           updated_at = updatedAt (getField raw0 ''date'') (getField raw0 ''time''),
           change = parseNumberLoose (getField raw0 ''change''),
           change_pct = parsePctLoose (getField raw0 ''change_pct''),
           high = parseNumberLoose (getField raw0 ''high''),
           low = parseNumberLoose (getField raw0 ''low''),
           open_val = parseNumberLoose (getField raw0 ''open''),
           prev = parseNumberLoose (getField raw0 ''prev''),
           volume = parseNumberLoose (getField raw0 ''volume''),
           turnover = parseNumberLoose (getField raw0 ''turnover''),
           raw = map (\<lambda>k. (k, getField raw0 k))
                   [''last'', ''last_id'', ''date'', ''time'', ''change'', ''change_pct'', ''high'',
                    ''low'', ''open'', ''prev'', ''volume'', ''turnover''] \<rparr>)"

definition isNullish :: "quote \<Rightarrow> string \<Rightarrow> bool" where
  \<comment> \<open>\<open>q[k] == null\<close>: the property is \<open>null\<close> or absent\<close>
  "isNullish q k =
     (if k = ''symbol'' then False
      else if k = ''last'' then last_val q = None
      else if k = ''date'' then date q = None
      else if k = ''time'' then time q = None
      else if k = ''updated_at'' then updated_at q = None
      else if k = ''change'' then change q = None
      else if k = ''change_pct'' then change_pct q = None
      else if k = ''high'' then high q = None
      else if k = ''low'' then low q = None
      else if k = ''open'' then open_val q = None
      else if k = ''prev'' then prev q = None
      else if k = ''volume'' then volume q = None
      else if k = ''turnover'' then turnover q = None
      else if k = ''raw'' then False
      else True)"

definition required :: "string list" where
  "required = [''last'', ''date'', ''time'', ''change'', ''change_pct'', ''high'', ''low'', ''open'', ''prev'']"

fun requiredLoop :: "quote \<Rightarrow> string list \<Rightarrow> bool" where
  "requiredLoop q [] = True"
| "requiredLoop q (k # ks) = (if isNullish q k then False else requiredLoop q ks)"

definition validateParsedQuote :: "quote \<Rightarrow> bool" where
  "validateParsedQuote q = requiredLoop q required"

section \<open>\<open>bin/stooq-quote.js\<close>: the record of the rendered path\<close>

definition buildQuoteFromPlaywrightRaw :: "string \<Rightarrow> fields option \<Rightarrow> quote" where
  "buildQuoteFromPlaywrightRaw symbol0 raw0 =
     (let sym = toLowerCase symbol0;
          r = (case raw0 of None \<Rightarrow> [] | Some x \<Rightarrow> x)
      in \<lparr> symbol = sym,
           last_val = parseNumberLoose (getField r ''last''),
           date = orNull (getField r ''date''),
           time = orNull (getField r ''time''),
           updated_at = updatedAt (getField r ''date'') (getField r ''time''),
           change = parseNumberLoose (getField r ''change''),
           change_pct = parsePctLoose (getField r ''change_pct''),
           high = parseNumberLoose (getField r ''high''),
           low = parseNumberLoose (getField r ''low''),
           open_val = parseNumberLoose (getField r ''open''),
           prev = parseNumberLoose (getField r ''prev''),
           volume = parseNumberLoose (getField r ''volume''),
           turnover = parseNumberLoose (getField r ''turnover''),
           raw = map (\<lambda>k. (k, getField r k))
                   [''last'', ''date'', ''time'', ''change'', ''change_pct'', ''high'',
                    ''low'', ''open'', ''prev'', ''volume'', ''turnover''] \<rparr>)"

section \<open>The fetchers\<close>

text \<open>
  The network and the browser are outside the program. Each operation on them is given
  by its outcome: the value it is fulfilled with, or the error it is rejected with. A
  deadline that passes is one of the outcomes. The operations a call performs are
  recorded, in order, in a trace.
\<close>

datatype error = Error string

datatype event = HttpGet string | Launch | NewPage | Goto string | Evaluate | PageClose | BrowserClose

definition hexDigit :: "nat \<Rightarrow> char" where
  "hexDigit n = ''0123456789ABCDEF'' ! (n mod 16)"

definition percent :: "nat \<Rightarrow> string" where
  "percent b = [CHR ''%'', hexDigit (b div 16), hexDigit b]"

definition encodeURIComponent :: "string \<Rightarrow> string" where
  \<comment> \<open>letters, digits and \<open>-_.!~*'()\<close> stay; any other code unit becomes the escaped
      bytes of its UTF-8 form, one byte below 128 and two bytes from 128 to 255\<close>
  "encodeURIComponent s =
     concat (map (\<lambda>c. if isWordChar c \<or> c \<in> set (''-.!~*()'' @ [CHR 0x27]) then [c]
                        else let n = (of_char c :: nat)
                             in if n < 128 then percent n
                                else percent (192 + n div 64) @ percent (128 + n mod 64)) s)"

definition quoteUrl :: "string \<Rightarrow> string" where
  "quoteUrl sym0 = ''https://stooq.com/q/?s='' @ encodeURIComponent sym0"

subsection \<open>\<open>src/stooq/http.js\<close>\<close>

datatype http_outcome =
  Aborted \<comment> \<open>the timer fired first: \<open>ac.abort(new Error("timeout"))\<close>\<close>
  | Rejected error \<comment> \<open>\<open>fetch\<close> failed otherwise\<close>
  | Response nat "error + string" \<comment> \<open>the status, and what reading the body gives\<close>

definition fetchQuoteHtml :: "(string \<Rightarrow> http_outcome) \<Rightarrow> string \<Rightarrow> (error + string) \<times> event list" where
  "fetchQuoteHtml net symbol0 =
     (let sym = toLowerCase symbol0;
          url = quoteUrl sym
      in (case net url of
            Aborted \<Rightarrow> Inl (Error ''timeout'')
          | Rejected e \<Rightarrow> Inl e
          | Response status body \<Rightarrow>
              if \<not> (200 \<le> status \<and> status \<le> 299) then Inl (Error (''http '' @ decimal status))
              else body,
          [HttpGet url]))"

subsection \<open>\<open>src/stooq/playwright.js\<close>\<close>

record browser =
  launch :: "error option" \<comment> \<open>\<open>chromium.launch\<close>: \<^term>\<open>None\<close> when it is fulfilled\<close>
  newPage :: "error option"
  goto :: "string \<Rightarrow> error option"
  document :: "string \<Rightarrow> string \<Rightarrow> string option"
    \<comment> \<open>the page at a URL: the \<open>textContent\<close> of the element \<open>getElementById\<close> finds\<close>
  evaluate :: "error option" \<comment> \<open>\<open>page.evaluate\<close> rejected before the function returned\<close>
  page_close :: "error option"
  browser_close :: "error option"

fun findLastElement :: "(string \<Rightarrow> string option) \<Rightarrow> string list \<Rightarrow> string option \<times> string option" where
  \<comment> \<open>the loop over the candidates in the page: \<open>(last_id, last)\<close>\<close>
  "findLastElement doc [] = (None, None)"
| "findLastElement doc (id0 # rest) =
     (case doc id0 of
        Some text \<Rightarrow> (Some id0, Some (trim text))
      | None \<Rightarrow> findLastElement doc rest)"

definition pageFunction :: "(string \<Rightarrow> string option) \<Rightarrow> string \<Rightarrow> fields" where
  \<comment> \<open>the function \<open>page.evaluate\<close> runs in the page; it builds the same candidates and
      the same \<open>ids\<close> as \<^const>\<open>parseQuoteHtml\<close>\<close>
  "pageFunction doc s =
     (let sym = toLowerCase s;
          (last_id, lastv) = findLastElement doc (lastIdCandidates sym)
      in [(''last'', lastv), (''last_id'', last_id)]
           @ map (\<lambda>(k, id0). (k, case doc id0 of Some text \<Rightarrow> Some (trim text) | None \<Rightarrow> None))
               (ids sym))"

definition catchIgnore :: "error option \<Rightarrow> error option" where
  \<comment> \<open>\<open>p.catch(() => {})\<close>: fulfilled whatever the outcome of \<open>p\<close>\<close>
  "catchIgnore p = None"

definition fetchQuoteViaPlaywright :: "browser \<Rightarrow> string \<Rightarrow> (error + fields) \<times> event list" where
  "fetchQuoteViaPlaywright b symbol0 =
     (let sym = toLowerCase symbol0;
          url = quoteUrl sym
      in case launch b of
           Some e \<Rightarrow> (Inl e, [Launch])
         | None \<Rightarrow>
             (case newPage b of
                Some e \<Rightarrow> (Inl e, [Launch, NewPage])
              | None \<Rightarrow>
                  let (res, tr) =
                        (case goto b url of
                           Some e \<Rightarrow> (Inl e, [Goto url])
                         | None \<Rightarrow>
                             (case evaluate b of
                                Some e \<Rightarrow> (Inl e, [Goto url, Evaluate])
                              | None \<Rightarrow> (Inr (pageFunction (document b url) sym), [Goto url, Evaluate])))
                  in \<comment> \<open>\<open>finally\<close>: an error raised here would replace \<open>res\<close>\<close>
                     (case catchIgnore (page_close b) of
                        Some e \<Rightarrow> (Inl e, [Launch, NewPage] @ tr @ [PageClose])
                      | None \<Rightarrow>
                          (case catchIgnore (browser_close b) of
                             Some e \<Rightarrow> (Inl e, [Launch, NewPage] @ tr @ [PageClose, BrowserClose])
                           | None \<Rightarrow> (res, [Launch, NewPage] @ tr @ [PageClose, BrowserClose])))))"

section \<open>\<open>bin/stooq-quote.js\<close>: the orchestrator\<close>

record world =
  net :: "string \<Rightarrow> http_outcome"
  chromium :: browser

definition fetchOne :: "world \<Rightarrow> string \<Rightarrow> string \<Rightarrow> (error + quote) \<times> event list" where
  "fetchOne w symbol0 mode =
     (if mode = ''http'' then
        (let (h, tr) = fetchQuoteHtml (net w) symbol0
         in (case h of
               Inl e \<Rightarrow> (Inl e, tr)
             | Inr html \<Rightarrow>
                 let q = parseQuoteHtml html symbol0
                 in if \<not> validateParsedQuote q
                    then (Inl (Error ''parsed quote missing required fields (http)''), tr)
                    else (Inr q, tr)))
      else if mode = ''playwright'' then
        (let (p, tr) = fetchQuoteViaPlaywright (chromium w) symbol0
         in (case p of
               Inl e \<Rightarrow> (Inl e, tr)
             | Inr raw0 \<Rightarrow>
                 let q = buildQuoteFromPlaywrightRaw symbol0 (Some raw0)
                 in if \<not> validateParsedQuote q
                    then (Inl (Error ''parsed quote missing required fields (playwright)''), tr)
                    else (Inr q, tr)))
      else
        (let (h, tr1) = fetchQuoteHtml (net w) symbol0;
             returned = (case h of
                           Inl e \<Rightarrow> None \<comment> \<open>\<open>catch (_) {}\<close>\<close>
                         | Inr html \<Rightarrow>
                             let q = parseQuoteHtml html symbol0
                             in if validateParsedQuote q then Some q else None)
         in case returned of
              Some q \<Rightarrow> (Inr q, tr1)
            | None \<Rightarrow>
                (let (p, tr2) = fetchQuoteViaPlaywright (chromium w) symbol0
                 in (case p of
                       Inl e \<Rightarrow> (Inl e, tr1 @ tr2)
                     | Inr raw0 \<Rightarrow>
                         let q = buildQuoteFromPlaywrightRaw symbol0 (Some raw0)
                         in if \<not> validateParsedQuote q
                            then (Inl (Error ''parsed quote missing required fields (auto)''), tr1 @ tr2)
                            else (Inr q, tr1 @ tr2)))))"

subsection \<open>\<open>mapLimit\<close>\<close>









section \<open>Properties of the number model\<close>

lemma ilog2_bounds:
  assumes "0 < r"
  shows "2 powi (ilog2 r) \<le> r \<and> r < 2 powi (ilog2 r + 1)"
proof -
  obtain a b where q: "quotient_of r = (a, b)"
    by (cases "quotient_of r")
  have b: "0 < b"
    using q by (rule quotient_of_denom_pos)
  have r: "r = of_int a / of_int b"
    using q by (rule quotient_of_div)
  have a: "0 < a"
    using assms b r by (simp add: zero_less_divide_iff)
  define na where "na = nat (bitlen a - 1)"
  define nb where "nb = nat (bitlen b - 1)"
  have la: "bitlen a = int na + 1"
    using a bitlen_eq_zero_iff [of a] bitlen_nonneg [of a] by (simp add: na_def)
  have lb: "bitlen b = int nb + 1"
    using b bitlen_eq_zero_iff [of b] bitlen_nonneg [of b] by (simp add: nb_def)
  have "nat (bitlen a) = na + 1"
    using la by simp
  then have ia: "2 ^ na \<le> a" "a < 2 ^ (na + 1)"
    using bitlen_bounds [OF a] unfolding na_def [symmetric] by simp_all
  have "nat (bitlen b) = nb + 1"
    using lb by simp
  then have ib: "2 ^ nb \<le> b" "b < 2 ^ (nb + 1)"
    using bitlen_bounds [OF b] unfolding nb_def [symmetric] by simp_all
  have ra: "(2::rat) ^ na \<le> of_int a" "of_int a < (2::rat) ^ (na + 1)"
    using ia by (metis of_int_le_iff of_int_numeral of_int_power, metis of_int_less_iff of_int_numeral of_int_power)
  have rb: "(2::rat) ^ nb \<le> of_int b" "of_int b < (2::rat) ^ (nb + 1)"
    using ib by (metis of_int_le_iff of_int_numeral of_int_power, metis of_int_less_iff of_int_numeral of_int_power)
  have e: "bitlen a - bitlen b = int na - int nb"
    by (simp add: la lb)
  have p1: "(2::rat) powi (int na - int nb - 1) = 2 ^ na / 2 ^ (nb + 1)"
  proof -
    have i: "int na - int nb - 1 = int na - int (nb + 1)"
      by simp
    have "(2::rat) powi (int na - int (nb + 1)) = 2 powi (int na) / 2 powi (int (nb + 1))"
      by (rule power_int_diff) simp
    then show ?thesis
      unfolding i by (simp only: power_int_of_nat)
  qed
  have p2: "(2::rat) powi (int na - int nb + 1) = 2 ^ (na + 1) / 2 ^ nb"
  proof -
    have i: "int na - int nb + 1 = int (na + 1) - int nb"
      by simp
    have "(2::rat) powi (int (na + 1) - int nb) = 2 powi (int (na + 1)) / 2 powi (int nb)"
      by (rule power_int_diff) simp
    then show ?thesis
      unfolding i by (simp only: power_int_of_nat)
  qed
  have lower: "(2::rat) powi (int na - int nb - 1) \<le> r"
    unfolding p1 r using ra(1) rb(2) a b by (intro frac_le) auto
  have upper: "r < (2::rat) powi (int na - int nb + 1)"
    unfolding p2 r using ra(2) rb(1) a b by (intro frac_less) auto
  show ?thesis
    using lower upper q by (auto simp: ilog2_def Let_def e)
qed

section \<open>Properties of the assembler and the validator\<close>

lemma decimal_digits:
  "map decimal [2, 0, 3, 1, 4, 5, 6, 7, 8, 9] = [''2'', ''0'', ''3'', ''1'', ''4'', ''5'', ''6'', ''7'', ''8'', ''9'']"
  by code_simp

lemma lastIdCandidates_list:
  "lastIdCandidates sym0 =
     [''aq_'' @ sym0 @ ''_c2|3'', ''aq_'' @ sym0 @ ''_c0|3'', ''aq_'' @ sym0 @ ''_c3|3'',
      ''aq_'' @ sym0 @ ''_c1|3'', ''aq_'' @ sym0 @ ''_c4|3'', ''aq_'' @ sym0 @ ''_c5|3'',
      ''aq_'' @ sym0 @ ''_c6|3'', ''aq_'' @ sym0 @ ''_c7|3'', ''aq_'' @ sym0 @ ''_c8|3'',
      ''aq_'' @ sym0 @ ''_c9|3'']"
proof -
  have "lastIdCandidates sym0 =
      map (\<lambda>d. ''aq_'' @ sym0 @ ''_c'' @ d @ ''|3'') (map decimal [2, 0, 3, 1, 4, 5, 6, 7, 8, 9])"
    unfolding lastIdCandidates_def map_map comp_def ..
  then show ?thesis
    unfolding decimal_digits by simp
qed

lemma findLast_find:
  "findLast html cs =
     (case find (\<lambda>c. extractTextById html c \<noteq> None) cs of
        None \<Rightarrow> (None, None)
      | Some c \<Rightarrow> (Some c, extractTextById html c))"
  by (induction cs) (auto split: option.splits)

lemma parseQuoteHtml_date:
  "date (parseQuoteHtml html s) = orNull (extractTextById html (''aq_'' @ toLowerCase s @ ''_d2''))"
  by (simp add: parseQuoteHtml_def Let_def ids_def getField_def split: prod.splits)

lemma parseQuoteHtml_time:
  "time (parseQuoteHtml html s) = orNull (extractTextById html (''aq_'' @ toLowerCase s @ ''_t1''))"
  by (simp add: parseQuoteHtml_def Let_def ids_def getField_def split: prod.splits)

lemma parseQuoteHtml_updated_at:
  "updated_at (parseQuoteHtml html s) =
     updatedAt (extractTextById html (''aq_'' @ toLowerCase s @ ''_d2''))
       (extractTextById html (''aq_'' @ toLowerCase s @ ''_t1''))"
  by (simp add: parseQuoteHtml_def Let_def ids_def getField_def split: prod.splits)

lemma parseQuoteHtml_raw_date_time:
  "getField (raw (parseQuoteHtml html s)) ''date'' = extractTextById html (''aq_'' @ toLowerCase s @ ''_d2'')"
  "getField (raw (parseQuoteHtml html s)) ''time'' = extractTextById html (''aq_'' @ toLowerCase s @ ''_t1'')"
  by (simp_all add: parseQuoteHtml_def Let_def ids_def getField_def split: prod.splits)

lemma parseQuoteHtml_last:
  "last_val (parseQuoteHtml html s) = parseNumberLoose (snd (findLast html (lastIdCandidates (toLowerCase s))))"
  "getField (raw (parseQuoteHtml html s)) ''last'' = snd (findLast html (lastIdCandidates (toLowerCase s)))"
  "getField (raw (parseQuoteHtml html s)) ''last_id'' = fst (findLast html (lastIdCandidates (toLowerCase s)))"
  by (simp_all add: parseQuoteHtml_def Let_def ids_def getField_def split: prod.splits)

lemma buildQuote_date_time:
  "date (buildQuoteFromPlaywrightRaw s r) = orNull (getField (case r of None \<Rightarrow> [] | Some x \<Rightarrow> x) ''date'')"
  "time (buildQuoteFromPlaywrightRaw s r) = orNull (getField (case r of None \<Rightarrow> [] | Some x \<Rightarrow> x) ''time'')"
  "updated_at (buildQuoteFromPlaywrightRaw s r) =
     updatedAt (getField (case r of None \<Rightarrow> [] | Some x \<Rightarrow> x) ''date'')
       (getField (case r of None \<Rightarrow> [] | Some x \<Rightarrow> x) ''time'')"
  by (simp_all add: buildQuoteFromPlaywrightRaw_def Let_def)

lemma updatedAt_orNull:
  "updatedAt d t = (case (orNull d, orNull t) of (Some x, Some y) \<Rightarrow> Some (x @ '' '' @ y) | _ \<Rightarrow> None)"
  by (auto simp: updatedAt_def orNull_def truthy_def split: option.splits)

lemma validateParsedQuote_required:
  "validateParsedQuote q \<longleftrightarrow>
     last_val q \<noteq> None \<and> date q \<noteq> None \<and> time q \<noteq> None \<and> change q \<noteq> None \<and> change_pct q \<noteq> None \<and>
     high q \<noteq> None \<and> low q \<noteq> None \<and> open_val q \<noteq> None \<and> prev q \<noteq> None"
  by (simp add: validateParsedQuote_def required_def isNullish_def)

text \<open>
  C2. \<open>validateParsedQuote(q)\<close> is true exactly when none of the nine fields \<open>last\<close>,
  \<open>date\<close>, \<open>time\<close>, \<open>change\<close>, \<open>change_pct\<close>, \<open>high\<close>, \<open>low\<close>, \<open>open\<close>, \<open>prev\<close> of \<open>q\<close> is
  null, and the values of \<open>volume\<close> and \<open>turnover\<close> never change the result.
\<close>

theorem validateParsedQuote_nine_fields:
  "(validateParsedQuote q \<longleftrightarrow>
      last_val q \<noteq> None \<and> date q \<noteq> None \<and> time q \<noteq> None \<and> change q \<noteq> None \<and>
      change_pct q \<noteq> None \<and> high q \<noteq> None \<and> low q \<noteq> None \<and> open_val q \<noteq> None \<and> prev q \<noteq> None)
   \<and> validateParsedQuote (q\<lparr>volume := v, turnover := t\<rparr>) = validateParsedQuote q"
  by (simp add: validateParsedQuote_required)

theorem validateParsedQuote_nine_fields_witness:
  "validateParsedQuote
     \<lparr>symbol = ''gc.f'', last_val = Some (Fin 1), date = Some ''2026-02-14'', time = Some ''12:09:42'',
      updated_at = Some ''2026-02-14 12:09:42'', change = Some (Fin 1), change_pct = Some (Fin 1),
      high = Some (Fin 1), low = Some (Fin 1), open_val = Some (Fin 1), prev = Some (Fin 1),
      volume = None, turnover = None, raw = []\<rparr>
   \<and> \<not> validateParsedQuote
     \<lparr>symbol = ''gc.f'', last_val = Some (Fin 1), date = Some ''2026-02-14'', time = Some ''12:09:42'',
      updated_at = Some ''2026-02-14 12:09:42'', change = Some (Fin 1), change_pct = Some (Fin 1),
      high = None, low = Some (Fin 1), open_val = Some (Fin 1), prev = Some (Fin 1),
      volume = Some (Fin 1), turnover = Some (Fin 1), raw = []\<rparr>"
  using validateParsedQuote_nine_fields
    [of "\<lparr>symbol = ''gc.f'', last_val = Some (Fin 1), date = Some ''2026-02-14'', time = Some ''12:09:42'',
      updated_at = Some ''2026-02-14 12:09:42'', change = Some (Fin 1), change_pct = Some (Fin 1),
      high = Some (Fin 1), low = Some (Fin 1), open_val = Some (Fin 1), prev = Some (Fin 1),
      volume = None, turnover = None, raw = []\<rparr>"]
    validateParsedQuote_nine_fields
    [of "\<lparr>symbol = ''gc.f'', last_val = Some (Fin 1), date = Some ''2026-02-14'', time = Some ''12:09:42'',
      updated_at = Some ''2026-02-14 12:09:42'', change = Some (Fin 1), change_pct = Some (Fin 1),
      high = None, low = Some (Fin 1), open_val = Some (Fin 1), prev = Some (Fin 1),
      volume = Some (Fin 1), turnover = Some (Fin 1), raw = []\<rparr>"]
  by simp

text \<open>
  C6. In the record of either path, \<open>updated_at\<close> is non-null exactly when \<open>date\<close> and
  \<open>time\<close> both are, and it is then the date, one space and the time.
\<close>

theorem updated_at_date_time:
  "(updated_at (parseQuoteHtml html symbol0) \<noteq> None \<longleftrightarrow>
      date (parseQuoteHtml html symbol0) \<noteq> None \<and> time (parseQuoteHtml html symbol0) \<noteq> None)
   \<and> updated_at (parseQuoteHtml html symbol0) =
       (case (date (parseQuoteHtml html symbol0), time (parseQuoteHtml html symbol0)) of
          (Some d, Some t) \<Rightarrow> Some (d @ '' '' @ t)
        | _ \<Rightarrow> None)
   \<and> (updated_at (buildQuoteFromPlaywrightRaw symbol0 raw0) \<noteq> None \<longleftrightarrow>
        date (buildQuoteFromPlaywrightRaw symbol0 raw0) \<noteq> None
        \<and> time (buildQuoteFromPlaywrightRaw symbol0 raw0) \<noteq> None)
   \<and> updated_at (buildQuoteFromPlaywrightRaw symbol0 raw0) =
       (case (date (buildQuoteFromPlaywrightRaw symbol0 raw0),
              time (buildQuoteFromPlaywrightRaw symbol0 raw0)) of
          (Some d, Some t) \<Rightarrow> Some (d @ '' '' @ t)
        | _ \<Rightarrow> None)"
  unfolding parseQuoteHtml_date parseQuoteHtml_time parseQuoteHtml_updated_at buildQuote_date_time
    updatedAt_orNull
  by (simp split: option.splits)

theorem updated_at_date_time_witness:
  "updated_at (parseQuoteHtml ''<b id=aq_gc.f_d2>2026-02-14</b><i id=aq_gc.f_t1> 12:09:42</i>'' ''GC.F'')
     = Some ''2026-02-14 12:09:42''
   \<and> updated_at (buildQuoteFromPlaywrightRaw ''GC.F''
         (Some [(''date'', Some ''2026-02-14''), (''time'', Some ''12:09:42'')]))
     = Some ''2026-02-14 12:09:42''
   \<and> updated_at (parseQuoteHtml ''<b id=aq_gc.f_d2>2026-02-14</b>'' ''GC.F'') = None"
proof -
  let ?h = "''<b id=aq_gc.f_d2>2026-02-14</b><i id=aq_gc.f_t1> 12:09:42</i>''"
  let ?h2 = "''<b id=aq_gc.f_d2>2026-02-14</b>''"
  let ?r = "Some [(''date'', Some ''2026-02-14''), (''time'', Some ''12:09:42'')]"
  have d: "date (parseQuoteHtml ?h ''GC.F'') = Some ''2026-02-14''"
    unfolding parseQuoteHtml_date by code_simp
  have t: "time (parseQuoteHtml ?h ''GC.F'') = Some ''12:09:42''"
    unfolding parseQuoteHtml_time by code_simp
  have t2: "time (parseQuoteHtml ?h2 ''GC.F'') = None"
    unfolding parseQuoteHtml_time by code_simp
  have d': "date (buildQuoteFromPlaywrightRaw ''GC.F'' ?r) = Some ''2026-02-14''"
    unfolding buildQuote_date_time by code_simp
  have t': "time (buildQuoteFromPlaywrightRaw ''GC.F'' ?r) = Some ''12:09:42''"
    unfolding buildQuote_date_time by code_simp
  show ?thesis
    using updated_at_date_time [of ?h "''GC.F''" ?r] updated_at_date_time [of ?h2 "''GC.F''" ?r]
      d t t2 d' t'
    by simp
qed

text \<open>
  C10. When the extractor returns the empty string for the date or the time element,
  the field of the record is null, as it is when the element is not found; then
  \<open>updated_at\<close> is null and the record fails validation.
\<close>

theorem empty_date_or_time_is_null:
  "(extractTextById html (''aq_'' @ toLowerCase symbol0 @ ''_d2'') = Some [] \<longrightarrow>
      date (parseQuoteHtml html symbol0) = None
      \<and> updated_at (parseQuoteHtml html symbol0) = None
      \<and> \<not> validateParsedQuote (parseQuoteHtml html symbol0))
   \<and> (extractTextById html (''aq_'' @ toLowerCase symbol0 @ ''_t1'') = Some [] \<longrightarrow>
      time (parseQuoteHtml html symbol0) = None
      \<and> updated_at (parseQuoteHtml html symbol0) = None
      \<and> \<not> validateParsedQuote (parseQuoteHtml html symbol0))
   \<and> (date (parseQuoteHtml html symbol0) = None \<longleftrightarrow>
        extractTextById html (''aq_'' @ toLowerCase symbol0 @ ''_d2'') \<in> {None, Some []})
   \<and> (time (parseQuoteHtml html symbol0) = None \<longleftrightarrow>
        extractTextById html (''aq_'' @ toLowerCase symbol0 @ ''_t1'') \<in> {None, Some []})"
  unfolding validateParsedQuote_required parseQuoteHtml_date parseQuoteHtml_time
    parseQuoteHtml_updated_at
  by (auto simp: updatedAt_def orNull_def truthy_def split: option.splits)

theorem empty_date_or_time_is_null_witness:
  "extractTextById ''<b id=aq_gc.f_d2></b><i id=aq_gc.f_t1>12:09:42</i>'' ''aq_gc.f_d2'' = Some []
   \<and> date (parseQuoteHtml ''<b id=aq_gc.f_d2></b><i id=aq_gc.f_t1>12:09:42</i>'' ''gc.f'') = None
   \<and> updated_at (parseQuoteHtml ''<b id=aq_gc.f_d2></b><i id=aq_gc.f_t1>12:09:42</i>'' ''gc.f'') = None
   \<and> \<not> validateParsedQuote (parseQuoteHtml ''<b id=aq_gc.f_d2></b><i id=aq_gc.f_t1>12:09:42</i>'' ''gc.f'')
   \<and> extractTextById ''<b id=aq_gc.f_d2>2026-02-14</b><i id=aq_gc.f_t1> </i>'' ''aq_gc.f_t1'' = Some []
   \<and> time (parseQuoteHtml ''<b id=aq_gc.f_d2>2026-02-14</b><i id=aq_gc.f_t1> </i>'' ''gc.f'') = None"
proof -
  let ?h = "''<b id=aq_gc.f_d2></b><i id=aq_gc.f_t1>12:09:42</i>''"
  let ?h2 = "''<b id=aq_gc.f_d2>2026-02-14</b><i id=aq_gc.f_t1> </i>''"
  have l: "toLowerCase ''gc.f'' = ''gc.f''"
    by code_simp
  have e: "extractTextById ?h ''aq_gc.f_d2'' = Some []"
    by code_simp
  have e2: "extractTextById ?h2 ''aq_gc.f_t1'' = Some []"
    by code_simp
  show ?thesis
    using empty_date_or_time_is_null [of ?h "''gc.f''"] empty_date_or_time_is_null [of ?h2 "''gc.f''"]
      e e2 l
    by simp
qed

text \<open>
  C5. \<open>parseQuoteHtml\<close> resolves \<open>last\<close> from the candidate keys \<open>aq_<symbol>_c<d>|3\<close>
  with \<open>d\<close> in the order 2, 0, 3, 1, 4, 5, 6, 7, 8, 9: the first candidate whose
  extraction is not null gives \<open>last\<close>, so a page with only the \<open>c3|3\<close> element of
  \<open>gc.f\<close> resolves \<open>last\<close> from it.
\<close>

theorem last_from_first_candidate:
  "lastIdCandidates sym0 =
     [''aq_'' @ sym0 @ ''_c2|3'', ''aq_'' @ sym0 @ ''_c0|3'', ''aq_'' @ sym0 @ ''_c3|3'',
      ''aq_'' @ sym0 @ ''_c1|3'', ''aq_'' @ sym0 @ ''_c4|3'', ''aq_'' @ sym0 @ ''_c5|3'',
      ''aq_'' @ sym0 @ ''_c6|3'', ''aq_'' @ sym0 @ ''_c7|3'', ''aq_'' @ sym0 @ ''_c8|3'',
      ''aq_'' @ sym0 @ ''_c9|3'']
   \<and> (case find (\<lambda>c. extractTextById html c \<noteq> None) (lastIdCandidates (toLowerCase symbol0)) of
        None \<Rightarrow>
          getField (raw (parseQuoteHtml html symbol0)) ''last_id'' = None
          \<and> getField (raw (parseQuoteHtml html symbol0)) ''last'' = None
          \<and> last_val (parseQuoteHtml html symbol0) = None
      | Some c \<Rightarrow>
          getField (raw (parseQuoteHtml html symbol0)) ''last_id'' = Some c
          \<and> getField (raw (parseQuoteHtml html symbol0)) ''last'' = extractTextById html c
          \<and> last_val (parseQuoteHtml html symbol0) = parseNumberLoose (extractTextById html c))
   \<and> extractTextById ''<span id=aq_gc.f_c3|3>4,321.5</span>'' ''aq_gc.f_c2|3'' = None
   \<and> getField (raw (parseQuoteHtml ''<span id=aq_gc.f_c3|3>4,321.5</span>'' ''gc.f'')) ''last_id''
       = Some ''aq_gc.f_c3|3''
   \<and> last_val (parseQuoteHtml ''<span id=aq_gc.f_c3|3>4,321.5</span>'' ''gc.f'') = Some (Fin (8643 / 2))"
proof -
  have a: "extractTextById ''<span id=aq_gc.f_c3|3>4,321.5</span>'' ''aq_gc.f_c2|3'' = None"
    by code_simp
  have b: "getField (raw (parseQuoteHtml ''<span id=aq_gc.f_c3|3>4,321.5</span>'' ''gc.f'')) ''last_id''
       = Some ''aq_gc.f_c3|3''"
    unfolding parseQuoteHtml_last by code_simp
  have c: "last_val (parseQuoteHtml ''<span id=aq_gc.f_c3|3>4,321.5</span>'' ''gc.f'') = Some (Fin (8643 / 2))"
    unfolding parseQuoteHtml_last by code_simp
  have d: "case find (\<lambda>c. extractTextById html c \<noteq> None) (lastIdCandidates (toLowerCase symbol0)) of
        None \<Rightarrow>
          getField (raw (parseQuoteHtml html symbol0)) ''last_id'' = None
          \<and> getField (raw (parseQuoteHtml html symbol0)) ''last'' = None
          \<and> last_val (parseQuoteHtml html symbol0) = None
      | Some c \<Rightarrow>
          getField (raw (parseQuoteHtml html symbol0)) ''last_id'' = Some c
          \<and> getField (raw (parseQuoteHtml html symbol0)) ''last'' = extractTextById html c
          \<and> last_val (parseQuoteHtml html symbol0) = parseNumberLoose (extractTextById html c)"
    unfolding parseQuoteHtml_last findLast_find
    by (simp add: parseNumberLoose_def split: option.splits)
  show ?thesis
    using a b c d lastIdCandidates_list [of sym0] by blast
qed


theorem last_from_first_candidate_witness:
  "find (\<lambda>c. extractTextById ''<span id=aq_gc.f_c3|3>4,321.5</span>'' c \<noteq> None)
     (lastIdCandidates (toLowerCase ''GC.F'')) = Some ''aq_gc.f_c3|3''
   \<and> getField (raw (parseQuoteHtml ''<span id=aq_gc.f_c3|3>4,321.5</span>'' ''GC.F'')) ''last''
       = Some ''4,321.5''"
proof -
  let ?h = "''<span id=aq_gc.f_c3|3>4,321.5</span>''"
  have l: "toLowerCase ''GC.F'' = ''gc.f''"
    by code_simp
  have e: "extractTextById ?h ''aq_gc.f_c2|3'' = None" "extractTextById ?h ''aq_gc.f_c0|3'' = None"
    "extractTextById ?h ''aq_gc.f_c3|3'' = Some ''4,321.5''"
    by code_simp+
  have f: "find (\<lambda>c. extractTextById ?h c \<noteq> None) (lastIdCandidates (toLowerCase ''GC.F''))
      = Some ''aq_gc.f_c3|3''"
    unfolding l lastIdCandidates_list using e by simp
  show ?thesis
    using last_from_first_candidate [of "''gc.f''" ?h "''GC.F''"] f e by simp
qed

section \<open>Properties of the value normalizer\<close>

lemma startsWith_single: "startsWith t [c] \<longleftrightarrow> t \<noteq> [] \<and> hd t = c"
  by (cases t) (auto simp: startsWith_def)

lemma endsWith_single: "endsWith t [c] \<longleftrightarrow> t \<noteq> [] \<and> last t = c"
proof (cases t rule: rev_cases)
  case Nil
  then show ?thesis by (simp add: endsWith_def)
next
  case (snoc ys y)
  then show ?thesis by (auto simp: endsWith_def)
qed

lemma slice_init: "slice t 0 (- 1) = butlast t"
proof -
  have "nat (max (int (length t) + - 1) 0) = length t - 1"
    by (cases "length t") (auto simp: max_def)
  then show ?thesis
    by (simp add: slice_def Let_def butlast_conv_take)
qed

lemma slice_inner: "slice t 1 (- 1) = butlast (tl t)"
proof (cases t)
  case Nil
  then show ?thesis by (simp add: slice_def)
next
  case (Cons a u)
  have "nat (max (int (length (a # u)) + - 1) 0 - 1) = length u - 1"
    by (cases "length u") (auto simp: max_def)
  then show ?thesis
    using Cons by (simp add: slice_def Let_def butlast_conv_take)
qed

lemma parseNumberLoose_examples:
  "parseNumberLoose None = None"
  "parseNumberLoose (Some '''') = None"
  "parseNumberLoose (Some ''10.6k'') = Some (Fin 10600)"
  "parseNumberLoose (Some ''730m'') = Some (Fin 730000000)"
  "parseNumberLoose (Some ''2G'') = Some (Fin 2000000000)"
  "parseNumberLoose (Some ''-3b'') = Some (Fin (- 3000000000))"
  "parseNumberLoose (Some ''1,234.5'') = Some (Fin (2469 / 2))"
  "parseNumberLoose (Some ''n/a'') = None"
  by code_simp+

lemma parseNumberLoose_blank: "trim x = [] \<Longrightarrow> parseNumberLoose (Some x) = None"
  by (simp add: parseNumberLoose_def)

text \<open>
  C3. \<open>parseNumberLoose\<close> trims its input and gives null for null and for the empty
  string; a signed decimal directly followed by \<open>k\<close>, \<open>m\<close>, \<open>g\<close> or \<open>b\<close> (either case) is
  multiplied by a thousand, a million or a billion; any other text loses its commas and
  white space and is parsed as a number, and text that is no number gives null.
  The code breaks the last part: a text of commas only, such as \<open>","\<close>, becomes the empty
  string, which \<open>Number\<close> reads as 0.
\<close>

theorem parseNumberLoose_lone_comma:
  "parseNumberLoose (Some '','') = Some (Fin 0)"
  by code_simp

text \<open>
  C4. \<open>parsePctLoose\<close> trims its input, removes a pair of parentheses around it without
  changing the sign, removes one percent sign at the end and applies
  \<open>parseNumberLoose\<close>: \<open>"(+1.98%)"\<close> gives 1.98, \<open>"-1.98%"\<close> gives -1.98, \<open>"0%"\<close> gives 0,
  and null or blank input gives null. The number 1.98 of the program is the binary64
  value nearest to it.
\<close>

theorem parsePctLoose_steps:
  "parsePctLoose None = None
   \<and> (trim x = [] \<longrightarrow> parsePctLoose (Some x) = None)
   \<and> (trim x \<noteq> [] \<longrightarrow>
        parsePctLoose (Some x) =
          parseNumberLoose
            (Some (let t = trim x;
                       t1 = (if 2 \<le> length t \<and> hd t = CHR ''('' \<and> last t = CHR '')''
                             then butlast (tl t) else t)
                   in if t1 \<noteq> [] \<and> last t1 = CHR ''%'' then butlast t1 else t1)))
   \<and> parsePctLoose (Some ''(+1.98%)'') = Some (binary64 (198 / 100))
   \<and> parsePctLoose (Some ''-1.98%'') = Some (binary64 (- (198 / 100)))
   \<and> parsePctLoose (Some ''(-1.98%)'') = Some (binary64 (- (198 / 100)))
   \<and> parsePctLoose (Some ''0%'') = Some (Fin 0)
   \<and> parsePctLoose (Some '''') = None"
proof -
  have paren: "startsWith t ''('' \<and> endsWith t '')''
      \<longleftrightarrow> 2 \<le> length t \<and> hd t = CHR ''('' \<and> last t = CHR '')''" for t
  proof (cases t)
    case Nil
    then show ?thesis by (simp add: startsWith_single endsWith_single)
  next
    case (Cons a u)
    then show ?thesis by (cases u) (auto simp: startsWith_single endsWith_single)
  qed
  have general: "trim x \<noteq> [] \<longrightarrow>
        parsePctLoose (Some x) =
          parseNumberLoose
            (Some (let t = trim x;
                       t1 = (if 2 \<le> length t \<and> hd t = CHR ''('' \<and> last t = CHR '')''
                             then butlast (tl t) else t)
                   in if t1 \<noteq> [] \<and> last t1 = CHR ''%'' then butlast t1 else t1))"
    by (simp add: parsePctLoose_def Let_def paren slice_inner slice_init endsWith_single [of _ "CHR ''%''"])
  have blank: "trim x = [] \<longrightarrow> parsePctLoose (Some x) = None"
    by (simp add: parsePctLoose_def)
  have ex: "parsePctLoose None = None"
    "parsePctLoose (Some ''(+1.98%)'') = Some (binary64 (198 / 100))"
    "parsePctLoose (Some ''-1.98%'') = Some (binary64 (- (198 / 100)))"
    "parsePctLoose (Some ''(-1.98%)'') = Some (binary64 (- (198 / 100)))"
    "parsePctLoose (Some ''0%'') = Some (Fin 0)"
    "parsePctLoose (Some '''') = None"
    by code_simp+
  show ?thesis
    using general blank ex by blast
qed

theorem parsePctLoose_steps_witness:
  "trim '' (+1.98%) '' = ''(+1.98%)''
   \<and> parsePctLoose (Some '' (+1.98%) '') = parseNumberLoose (Some ''+1.98'')
   \<and> trim ''  '' = []
   \<and> parsePctLoose (Some ''  '') = None"
proof -
  have t: "trim '' (+1.98%) '' = ''(+1.98%)''" "trim ''  '' = []"
    by code_simp+
  show ?thesis
    using parsePctLoose_steps [of "'' (+1.98%) ''"] parsePctLoose_steps [of "''  ''"] t
    by simp
qed

section \<open>Properties of the field extractor\<close>

text \<open>
  The escaped key denotes the key itself, so the pattern matches the key literally.
\<close>

lemma patternChars_plain: "c \<noteq> CHR 0x5C \<Longrightarrow> patternChars (c # r) = c # patternChars r"
  by (cases r) simp_all

lemma patternChars_escapeRegExp: "patternChars (escapeRegExp s) = s"
proof (induction s)
  case Nil
  show ?case by (simp add: escapeRegExp_def)
next
  case (Cons c s)
  have step: "escapeRegExp (c # s) =
      (if c \<in> set (''.*+?^${}()|[]'' @ [CHR 0x5C]) then [CHR 0x5C, c] else [c]) @ escapeRegExp s"
    by (simp add: escapeRegExp_def)
  show ?case
  proof (cases "c \<in> set (''.*+?^${}()|[]'' @ [CHR 0x5C])")
    case True
    then show ?thesis
      unfolding step using Cons.IH by simp
  next
    case False
    then have "c \<noteq> CHR 0x5C" by auto
    then show ?thesis
      unfolding step using False Cons.IH by (simp add: patternChars_plain)
  qed
qed

lemma extractTextById_key:
  "extractTextById html key =
     (case lastMatch key None html None of None \<Rightarrow> None | Some l \<Rightarrow> Some (trim l))"
  by (simp add: extractTextById_def patternChars_escapeRegExp Let_def split: option.splits)

lemma extractTextById_examples:
  "extractTextById ''<b id=aq_gc.f_h>1</b> <b id=aq_gc.f_h> 2 </b>'' ''aq_gc.f_h'' = Some ''2''"
  "extractTextById (''<b id='' @ [CHR 0x22] @ ''aq_gc.f_h'' @ [CHR 0x22] @ '' class=x>1</b>'') ''aq_gc.f_h''
     = Some ''1''"
  "extractTextById (''<b id='' @ [CHR 0x27] @ ''aq_gc.f_h'' @ [CHR 0x27] @ ''>1</b>'') ''aq_gc.f_h''
     = Some ''1''"
  "extractTextById ''<b id=aq_gc.f_h></b>'' ''aq_gc.f_h'' = Some []"
  "extractTextById ''<b id=aq_gc.f_l>1</b>'' ''aq_gc.f_h'' = None"
  "extractTextById ''<b id=aq_gcxf_h>1</b>'' ''aq_gc.f_h'' = None"
  by code_simp+

text \<open>
  C1. \<open>extractTextById\<close> returns the trimmed text of the last element whose identifier
  equals the key, quoted or not, and null when no element has the key as identifier.
  The examples above agree. The code breaks the claim where an identifier only starts
  with the key: nothing in the pattern ends the identifier after the key, so the element
  \<open>aq_gc.f_h2\<close> answers the key \<open>aq_gc.f_h\<close>.
\<close>

theorem extractTextById_longer_identifier:
  "extractTextById ''<b id=aq_gc.f_h2>7</b>'' ''aq_gc.f_h'' = Some ''7''"
  by code_simp

section \<open>Properties of the fetchers and of the orchestrator\<close>

lemma fetchQuoteViaPlaywright_teardown:
  assumes "launch b = None" and "newPage b = None"
  shows "\<exists>tr. snd (fetchQuoteViaPlaywright b s) = [Launch, NewPage] @ tr @ [PageClose, BrowserClose]"
    and "fetchQuoteViaPlaywright (b\<lparr>page_close := x, browser_close := y\<rparr>) s = fetchQuoteViaPlaywright b s"
  using assms
  by (auto simp: fetchQuoteViaPlaywright_def catchIgnore_def Let_def split: option.splits)

text \<open>
  C8. \<open>fetchQuoteViaPlaywright\<close> closes the page and the browser on every way out, and a
  failure to close never replaces the result. From the moment the page exists this
  holds (lemma above). The code breaks the claim when \<open>browser.newPage()\<close> is rejected:
  the call stands before the \<open>try\<close>, so the browser that was launched is never closed.
\<close>

theorem fetchQuoteViaPlaywright_newPage_rejected:
  "fetchQuoteViaPlaywright
     \<lparr>launch = None, newPage = Some (Error ''Target closed''), goto = (\<lambda>url. None),
      document = (\<lambda>url id0. None), evaluate = None, page_close = None, browser_close = None\<rparr>
     ''gc.f''
   = (Inl (Error ''Target closed''), [Launch, NewPage])"
  by (simp add: fetchQuoteViaPlaywright_def)

lemma fetchQuoteHtml_trace: "snd (fetchQuoteHtml n s) = [HttpGet (quoteUrl (toLowerCase s))]"
  by (simp add: fetchQuoteHtml_def Let_def)

text \<open>
  C7. In auto mode \<open>fetchOne\<close> runs the HTTP path first. When its record validates, that
  record is returned and the browser is never started. When the path throws or its
  record fails validation, the rendered path runs, and an error of the symbol is the
  one of the rendered path: the error \<open>fetchQuoteViaPlaywright\<close> raised, or the failed
  validation of its record.
\<close>

theorem fetchOne_auto:
  "(fst (fetchQuoteHtml (net w) s) = Inr html \<and> validateParsedQuote (parseQuoteHtml html s) \<longrightarrow>
      fetchOne w s ''auto'' = (Inr (parseQuoteHtml html s), [HttpGet (quoteUrl (toLowerCase s))]))
   \<and> ((\<exists>e. fst (fetchQuoteHtml (net w) s) = Inl e)
        \<or> (\<exists>h. fst (fetchQuoteHtml (net w) s) = Inr h \<and> \<not> validateParsedQuote (parseQuoteHtml h s)) \<longrightarrow>
      fetchOne w s ''auto'' =
        (case fst (fetchQuoteViaPlaywright (chromium w) s) of
           Inl e \<Rightarrow> Inl e
         | Inr raw0 \<Rightarrow>
             if validateParsedQuote (buildQuoteFromPlaywrightRaw s (Some raw0))
             then Inr (buildQuoteFromPlaywrightRaw s (Some raw0))
             else Inl (Error ''parsed quote missing required fields (auto)''),
         HttpGet (quoteUrl (toLowerCase s)) # snd (fetchQuoteViaPlaywright (chromium w) s)))
   \<and> (fst (fetchOne w s ''auto'') = Inl err \<longrightarrow>
        fst (fetchQuoteViaPlaywright (chromium w) s) = Inl err
        \<or> (\<exists>raw0. fst (fetchQuoteViaPlaywright (chromium w) s) = Inr raw0
              \<and> \<not> validateParsedQuote (buildQuoteFromPlaywrightRaw s (Some raw0))
              \<and> err = Error ''parsed quote missing required fields (auto)''))"
proof -
  obtain h tr1 where h: "fetchQuoteHtml (net w) s = (h, tr1)"
    by (cases "fetchQuoteHtml (net w) s")
  have tr1: "tr1 = [HttpGet (quoteUrl (toLowerCase s))]"
    using fetchQuoteHtml_trace [of "net w" s] h by simp
  obtain p tr2 where p: "fetchQuoteViaPlaywright (chromium w) s = (p, tr2)"
    by (cases "fetchQuoteViaPlaywright (chromium w) s")
  show ?thesis
    unfolding fetchOne_def h p tr1
    by (auto simp: Let_def split: sum.splits)
qed


theorem fetchOne_auto_witness:
  "fetchOne
     \<lparr>net = (\<lambda>url. Response 200 (Inr ''<b id=aq_x_c2|3>1<b id=aq_x_d2>d<b id=aq_x_t1>t<b id=aq_x_m2>1<b id=aq_x_m3>1<b id=aq_x_h>1<b id=aq_x_l>1<b id=aq_x_o>1<b id=aq_x_p>1<'')),
      chromium = \<lparr>launch = None, newPage = None, goto = (\<lambda>url. Some (Error ''net::ERR_FAILED'')),
        document = (\<lambda>url id0. None), evaluate = None, page_close = Some (Error ''closed''),
        browser_close = Some (Error ''closed'')\<rparr>\<rparr>
     ''x'' ''auto''
   = (Inr (parseQuoteHtml ''<b id=aq_x_c2|3>1<b id=aq_x_d2>d<b id=aq_x_t1>t<b id=aq_x_m2>1<b id=aq_x_m3>1<b id=aq_x_h>1<b id=aq_x_l>1<b id=aq_x_o>1<b id=aq_x_p>1<'' ''x''),
      [HttpGet ''https://stooq.com/q/?s=x''])
   \<and> fetchOne
     \<lparr>net = (\<lambda>url. Response 503 (Inr ''busy'')),
      chromium = \<lparr>launch = None, newPage = None, goto = (\<lambda>url. Some (Error ''net::ERR_FAILED'')),
        document = (\<lambda>url id0. None), evaluate = None, page_close = Some (Error ''closed''),
        browser_close = Some (Error ''closed'')\<rparr>\<rparr>
     ''x'' ''auto''
   = (Inl (Error ''net::ERR_FAILED''),
      [HttpGet ''https://stooq.com/q/?s=x'', Launch, NewPage, Goto ''https://stooq.com/q/?s=x'',
       PageClose, BrowserClose])"
proof -
  let ?H = "''<b id=aq_x_c2|3>1<b id=aq_x_d2>d<b id=aq_x_t1>t<b id=aq_x_m2>1<b id=aq_x_m3>1<b id=aq_x_h>1<b id=aq_x_l>1<b id=aq_x_o>1<b id=aq_x_p>1<''"
  let ?B = "\<lparr>launch = None, newPage = None, goto = (\<lambda>url. Some (Error ''net::ERR_FAILED'')),
        document = (\<lambda>url id0. None), evaluate = None, page_close = Some (Error ''closed''),
        browser_close = Some (Error ''closed'')\<rparr>"
  let ?W2 = "\<lparr>net = (\<lambda>url. Response 200 (Inr ?H)), chromium = ?B\<rparr>"
  let ?W1 = "\<lparr>net = (\<lambda>url. Response 503 (Inr ''busy'')), chromium = ?B\<rparr>"
  have u: "quoteUrl (toLowerCase ''x'') = ''https://stooq.com/q/?s=x''"
    by code_simp
  have h2: "fst (fetchQuoteHtml (net ?W2) ''x'') = Inr ?H"
    by (simp add: fetchQuoteHtml_def)
  have v: "validateParsedQuote (parseQuoteHtml ?H ''x'')"
    by code_simp
  have h1: "fst (fetchQuoteHtml (net ?W1) ''x'') = Inl (Error (''http '' @ decimal 503))"
    by (simp add: fetchQuoteHtml_def)
  have p: "fetchQuoteViaPlaywright (chromium ?W1) ''x''
      = (Inl (Error ''net::ERR_FAILED''),
         [Launch, NewPage, Goto ''https://stooq.com/q/?s=x'', PageClose, BrowserClose])"
    by (simp add: fetchQuoteViaPlaywright_def catchIgnore_def u)
  have a: "fetchOne ?W2 ''x'' ''auto'' = (Inr (parseQuoteHtml ?H ''x''), [HttpGet ''https://stooq.com/q/?s=x''])"
    using fetchOne_auto [of ?W2 "''x''" ?H] h2 v unfolding u by blast
  have b: "fetchOne ?W1 ''x'' ''auto''
      = (Inl (Error ''net::ERR_FAILED''),
         [HttpGet ''https://stooq.com/q/?s=x'', Launch, NewPage, Goto ''https://stooq.com/q/?s=x'',
          PageClose, BrowserClose])"
    using fetchOne_auto [of ?W1 "''x''"] h1 unfolding u p by simp
  show ?thesis
    using a b by simp
qed

section \<open>Properties of \<open>mapLimit\<close>\<close>














end
